theory Spec2Isabelle
  imports Complex_Main
begin

section \<open>Common data: exceptions and JSON values\<close>

text \<open>
  The nodes of the batch pipeline exchange JSON strings and fail by raising Python
  exceptions. An exception that leaves a node is the \<open>Inl\<close> branch of a sum.
\<close>

datatype py_error =
    JSONDecodeError
  | ValueError
  | AttributeError
  | TypeError
  | IndexError
  | KeyError
  | OSError
  | ServiceError string

text \<open>
  What \<open>json.loads\<close> returns. An object is the list of its members; \<open>map_of\<close> reads
  a key. A float is kept by its exact value.
\<close>

datatype json =
    JNull
  | JBool bool
  | JInt int
  | JFloat rat
  | JStr string
  | JArr "json list"
  | JObj "(string \<times> json) list"

text \<open>Python's truth value of a decoded JSON value, as \<open>if x\<close> and \<open>not x\<close> test it.\<close>

fun truthy :: "json \<Rightarrow> bool" where
  "truthy JNull = False"
| "truthy (JBool b) = b"
| "truthy (JInt n) = (n \<noteq> 0)"
| "truthy (JFloat r) = (r \<noteq> 0)"
| "truthy (JStr s) = (s \<noteq> [])"
| "truthy (JArr xs) = (xs \<noteq> [])"
| "truthy (JObj kvs) = (kvs \<noteq> [])"

text \<open>\<open>d.get(k, dflt)\<close> on a dict, and on any value: only a dict has \<open>get\<close>.\<close>

definition dict_get :: "(string \<times> json) list \<Rightarrow> string \<Rightarrow> json \<Rightarrow> json" where
  "dict_get d k dflt = (case map_of d k of None \<Rightarrow> dflt | Some v \<Rightarrow> v)"

definition py_get :: "json \<Rightarrow> string \<Rightarrow> json \<Rightarrow> py_error + json" where
  "py_get j k dflt = (case j of JObj d \<Rightarrow> Inr (dict_get d k dflt) | _ \<Rightarrow> Inl AttributeError)"

text \<open>
  \<open>str.strip()\<close> removes the white space at both ends. Characters are code points below
  256; these are the ones \<open>str.isspace\<close> accepts there.
\<close>

definition whitespace :: "char list" where
  "whitespace = [CHR 0x09, CHR 0x0A, CHR 0x0B, CHR 0x0C, CHR 0x0D, CHR 0x1C, CHR 0x1D,
                 CHR 0x1E, CHR 0x1F, CHR 0x20, CHR 0x85, CHR 0xA0]"

definition is_space :: "char \<Rightarrow> bool" where
  "is_space c = (c \<in> set whitespace)"

definition py_strip :: "string \<Rightarrow> string" where
  "py_strip s = rev (dropWhile is_space (rev (dropWhile is_space s)))"

text \<open>\<open>s.split(c)\<close> for a one-character separator: always at least one piece.\<close>

fun py_split :: "char \<Rightarrow> string \<Rightarrow> string list" where
  "py_split c [] = [[]]"
| "py_split c (x # xs) =
     (if x = c then [] # py_split c xs
      else (case py_split c xs of [] \<Rightarrow> [[x]] | y # ys \<Rightarrow> (x # y) # ys))"

text \<open>A loop that appends one computed item per element and stops at the first exception.\<close>

fun map_err :: "('a \<Rightarrow> py_error + 'b) \<Rightarrow> 'a list \<Rightarrow> py_error + 'b list" where
  "map_err f [] = Inr []"
| "map_err f (x # xs) =
     (case f x of
        Inl e \<Rightarrow> Inl e
      | Inr y \<Rightarrow> (case map_err f xs of Inl e \<Rightarrow> Inl e | Inr ys \<Rightarrow> Inr (y # ys)))"

text \<open>What a node's \<open>execute\<close> does: return outputs, raise, or ask to be requeued.\<close>

datatype 'a outcome =
    Returned 'a
  | Raised py_error
  | ReQueueAfterSignal nat

section \<open>Chunk planner: \<open>nodes/chunking.py\<close>\<close>

text \<open>
  Python's \<open>range(start, stop, step)\<close>: a zero step raises \<open>ValueError\<close>, a positive
  step counts up while below \<open>stop\<close>, a negative step counts down while above it.
\<close>

function py_range_from :: "int \<Rightarrow> int \<Rightarrow> int \<Rightarrow> int list" where
  "py_range_from i stop step =
     (if 0 < step \<and> i < stop then i # py_range_from (i + step) stop step
      else if step < 0 \<and> stop < i then i # py_range_from (i + step) stop step
      else [])"
  by pat_completeness auto
termination
  by (relation "measure (\<lambda>(i, stop, step). nat (if 0 < step then stop - i else i - stop))") auto

declare py_range_from.simps [simp del]

definition py_range :: "int \<Rightarrow> int \<Rightarrow> int \<Rightarrow> py_error + int list" where
  "py_range start stop step =
     (if step = 0 then Inl ValueError else Inr (py_range_from start stop step))"

text \<open>
  Python's slice \<open>xs[lo:hi]\<close>: a negative bound counts from the end, and both bounds
  are clamped to the list.
\<close>

definition slice_bound :: "nat \<Rightarrow> int \<Rightarrow> nat" where
  "slice_bound n i = (if i < 0 then nat (max 0 (int n + i)) else min n (nat i))"

definition py_slice :: "'a list \<Rightarrow> int \<Rightarrow> int \<Rightarrow> 'a list" where
  "py_slice xs lo hi =
     (let a = slice_bound (length xs) lo; b = slice_bound (length xs) hi
      in take (b - a) (drop a xs))"

text \<open>
  The loop of \<open>ChunkingNode.execute\<close> that builds \<open>chunks\<close>:
  \<^verbatim>\<open>for i in range(0, len(file_paths), chunk_size): chunks.append(file_paths[i:i + chunk_size])\<close>
\<close>

definition create_chunks :: "'a list \<Rightarrow> int \<Rightarrow> py_error + 'a list list" where
  "create_chunks file_paths chunk_size =
     (case py_range 0 (int (length file_paths)) chunk_size of
        Inl e \<Rightarrow> Inl e
      | Inr starts \<Rightarrow> Inr (map (\<lambda>i. py_slice file_paths i (i + chunk_size)) starts))"

section \<open>Poll controller: \<open>nodes/polling.py\<close>\<close>

text \<open>
  The objects of the extraction service's client, with the attributes the node reads.
  An attribute tested with \<open>hasattr\<close> is an option: \<open>None\<close> when the object lacks it;
  an attribute that the object has holds a value of the type the code uses it at (a
  list for \<open>inlined_responses\<close>, a string for \<open>file_name\<close>). A destination that is
  \<open>None\<close> has neither attribute, like a job without \<open>dest\<close>.
  \<open>getattr(usage, 'cached_content_token_count', 0)\<close> reads an option the same way.
\<close>

record usage_metadata =
  prompt_token_count :: int
  candidates_token_count :: int
  total_token_count :: int
  cached_content_token_count :: "int option"

record candidate =
  parts :: "string list"

record gen_response =
  response_id :: string
  model_version :: string
  candidates :: "candidate list"
  usage :: usage_metadata

record destination =
  inlined_responses :: "gen_response list option"
  file_name :: "string option"

record batch_job =
  state_name :: string
  dest :: "destination option"

text \<open>
  The client: \<open>client.batches.get(name=...)\<close> and \<open>client.files.download(name=...)\<close>
  followed by \<open>decode('utf-8')\<close>. Either call may raise.
\<close>

record client =
  batches_get :: "string \<Rightarrow> py_error + batch_job"
  files_download :: "string \<Rightarrow> py_error + string"

definition status_mapping :: "(string \<times> string) list" where
  "status_mapping =
     [(''JOB_STATE_PENDING'', ''pending''),
      (''JOB_STATE_RUNNING'', ''processing''),
      (''JOB_STATE_SUCCEEDED'', ''completed''),
      (''JOB_STATE_FAILED'', ''failed''),
      (''JOB_STATE_CANCELLING'', ''processing''),
      (''JOB_STATE_CANCELLED'', ''failed'')]"

text \<open>
  \<open>_check_task_status\<close>: the mapped status and the job; any exception of the query is
  caught and becomes \<open>("failed", None)\<close>.
\<close>

definition check_task_status :: "client \<Rightarrow> string \<Rightarrow> string \<times> batch_job option" where
  "check_task_status cl task_id =
     (case batches_get cl task_id of
        Inl e \<Rightarrow> (''failed'', None)
      | Inr job \<Rightarrow>
          (case map_of status_mapping (state_name job) of
             None \<Rightarrow> (''pending'', Some job)
           | Some mapped_status \<Rightarrow> (mapped_status, Some job)))"

text \<open>
  One inlined response as a result entry:
  \<^verbatim>\<open>response.candidates[0].content.parts[0].text if response.candidates else "No content"\<close>
\<close>

definition inline_result :: "gen_response \<Rightarrow> py_error + json" where
  "inline_result r =
     (case (case candidates r of
              [] \<Rightarrow> Inr ''No content''
            | c # _ \<Rightarrow> (case parts c of [] \<Rightarrow> Inl IndexError | t # _ \<Rightarrow> Inr t)) of
        Inl e \<Rightarrow> Inl e
      | Inr content \<Rightarrow>
          Inr (JObj
            [(''response_id'', JStr (response_id r)),
             (''model_version'', JStr (model_version r)),
             (''content'', JStr content),
             (''usage_metadata'', JObj
                [(''prompt_token_count'', JInt (prompt_token_count (usage r))),
                 (''candidates_token_count'', JInt (candidates_token_count (usage r))),
                 (''total_token_count'', JInt (total_token_count (usage r))),
                 (''cached_content_token_count'',
                    JInt (case cached_content_token_count (usage r) of None \<Rightarrow> 0 | Some n \<Rightarrow> n))])]))"

text \<open>
  The result file: \<open>results_data.strip().split('\n')\<close>, each line that is not blank
  decoded with \<open>json.loads\<close> (a parameter: \<open>None\<close> is \<open>JSONDecodeError\<close>).
\<close>

fun parse_jsonl :: "(string \<Rightarrow> json option) \<Rightarrow> string list \<Rightarrow> py_error + json list" where
  "parse_jsonl loads [] = Inr []"
| "parse_jsonl loads (line # rest) =
     (if py_strip line \<noteq> [] then
        (case loads line of
           None \<Rightarrow> Inl JSONDecodeError
         | Some result \<Rightarrow>
             (case parse_jsonl loads rest of Inl e \<Rightarrow> Inl e | Inr rs \<Rightarrow> Inr (result # rs)))
      else parse_jsonl loads rest)"

definition completed_result :: "string \<Rightarrow> json list \<Rightarrow> json" where
  "completed_result task_id results =
     JObj [(''task_id'', JStr task_id), (''status'', JStr ''completed''), (''results'', JArr results)]"

definition no_output_result :: "string \<Rightarrow> json" where
  "no_output_result task_id =
     JObj [(''task_id'', JStr task_id),
           (''status'', JStr ''failed''),
           (''error'', JStr ''No output file or inlined responses available''),
           (''results'', JArr [])]"

text \<open>\<open>_get_task_results\<close>. A missing job (\<open>None\<close>) has no \<open>state\<close>.\<close>

definition get_task_results ::
  "client \<Rightarrow> (string \<Rightarrow> json option) \<Rightarrow> string \<Rightarrow> batch_job option \<Rightarrow> py_error + json" where
  "get_task_results cl loads task_id batch_job =
     (case batch_job of
        None \<Rightarrow> Inl AttributeError
      | Some job \<Rightarrow>
          if state_name job \<noteq> ''JOB_STATE_SUCCEEDED'' then
            Inr (JObj [(''task_id'', JStr task_id),
                       (''status'', JStr (state_name job)),
                       (''results'', JArr [])])
          else
            (case dest job of
               None \<Rightarrow> Inr (no_output_result task_id)
             | Some d \<Rightarrow>
                 (case inlined_responses d of
                    Some responses \<Rightarrow>
                      (case map_err inline_result responses of
                         Inl e \<Rightarrow> Inl e
                       | Inr results \<Rightarrow> Inr (completed_result task_id results))
                  | None \<Rightarrow>
                      (case file_name d of
                         None \<Rightarrow> Inr (no_output_result task_id)
                       | Some f \<Rightarrow>
                           if f \<noteq> [] then
                             (case files_download cl f of
                                Inl e \<Rightarrow> Inl e
                              | Inr results_data \<Rightarrow>
                                  (case parse_jsonl loads
                                          (py_split CHR 0x0A (py_strip results_data)) of
                                     Inl e \<Rightarrow> Inl e
                                   | Inr results \<Rightarrow> Inr (completed_result task_id results)))
                           else Inr (no_output_result task_id)))))"

section \<open>Validator: \<open>nodes/validation.py\<close>\<close>

text \<open>
  The schema literal of \<open>ValidationNode.execute\<close> uses three keywords of JSON Schema:
  \<open>type\<close> (string, integer, object), \<open>properties\<close> and \<open>required\<close>. A schema node
  without \<open>properties\<close> or \<open>required\<close> has them empty.
\<close>

datatype jtype = TString | TInteger | TObject

datatype schema = Schema jtype "(string \<times> schema) list" "string list"

text \<open>
  The type test of \<open>jsonschema\<close>: a boolean is not an integer; a float with an integral
  value is one (drafts 6 and later, the default of \<open>jsonschema.validate\<close>).
\<close>

fun has_type :: "jtype \<Rightarrow> json \<Rightarrow> bool" where
  "has_type TString (JStr s) = True"
| "has_type TObject (JObj d) = True"
| "has_type TInteger (JInt n) = True"
| "has_type TInteger (JFloat r) = (of_int \<lfloor>r\<rfloor> = r)"
| "has_type t j = False"

datatype verror =
    WrongType "string list" jtype
  | MissingProperty "string list" string

text \<open>
  All violations of a schema by an instance, each with the path of keys to the place.
  \<open>properties\<close> and \<open>required\<close> apply to objects only; a property that is absent is
  not checked.
\<close>

fun schema_errors :: "string list \<Rightarrow> schema \<Rightarrow> json \<Rightarrow> verror list" where
  "schema_errors path (Schema t props req) j =
     (if has_type t j then [] else [WrongType path t])
     @ (case j of
          JObj d \<Rightarrow>
            concat (map (\<lambda>(k, s). case map_of d k of
                                     None \<Rightarrow> []
                                   | Some v \<Rightarrow> schema_errors (path @ [k]) s v) props)
            @ map (MissingProperty path) (filter (\<lambda>k. map_of d k = None) req)
        | _ \<Rightarrow> [])"

definition validation_schema :: schema where
  "validation_schema =
     Schema TObject
       [(''task_id'', Schema TString [] []),
        (''status'', Schema TString [] []),
        (''result_index'', Schema TInteger [] []),
        (''file_path'', Schema TString [] []),
        (''extracted_data'',
           Schema TObject
             [(''title'', Schema TString [] []),
              (''content'', Schema TString [] []),
              (''metadata'', Schema TObject [] [])]
             [''title'', ''content'']),
        (''batch_info'', Schema TObject [] []),
        (''split_timestamp'', Schema TString [] [])]
       [''task_id'', ''status'', ''file_path'', ''extracted_data'']"

text \<open>\<open>len(x.strip())\<close>: only a string has \<open>strip\<close>.\<close>

definition strip_len :: "json \<Rightarrow> py_error + nat" where
  "strip_len j = (case j of JStr s \<Rightarrow> Inr (length (py_strip s)) | _ \<Rightarrow> Inl AttributeError)"

text \<open>
  The checks after the schema has passed:
  \<^verbatim>\<open>if not extracted_data.get("title") or not extracted_data.get("content"): partial\<close>
  \<^verbatim>\<open>if len(extracted_data.get("content", "").strip()) < 10: partial\<close>
\<close>

definition check_fields :: "json \<Rightarrow> py_error + string" where
  "check_fields extracted_data =
     (case py_get extracted_data ''title'' JNull of
        Inl e \<Rightarrow> Inl e
      | Inr title \<Rightarrow>
          (case (if \<not> truthy title then Inr True
                 else (case py_get extracted_data ''content'' JNull of
                         Inl e \<Rightarrow> Inl e
                       | Inr c \<Rightarrow> Inr (\<not> truthy c))) of
             Inl e \<Rightarrow> Inl e
           | Inr missing \<Rightarrow>
               (case py_get extracted_data ''content'' (JStr []) of
                  Inl e \<Rightarrow> Inl e
                | Inr content \<Rightarrow>
                    (case strip_len content of
                       Inl e \<Rightarrow> Inl e
                     | Inr n \<Rightarrow>
                         Inr (if n < 10 then ''partial''
                              else if missing then ''partial'' else ''valid'')))))"

text \<open>
  \<open>ValidationNode.execute\<close> after both inputs are decoded. The log line reads
  \<open>individual_result.get(...)\<close> before anything else, which only a dict allows.
  \<open>describe\<close> is \<open>str(e)\<close> of the validation error, \<open>now\<close> the timestamp. The result is
  the record \<open>validated_data\<close> and the \<open>validation_status\<close>.
\<close>

definition validate_record ::
  "(verror list \<Rightarrow> string) \<Rightarrow> string \<Rightarrow> json \<Rightarrow> json \<Rightarrow> py_error + json \<times> string" where
  "validate_record describe now individual_result info =
     (case individual_result of
        JObj ir \<Rightarrow>
          (case schema_errors [] validation_schema individual_result of
             [] \<Rightarrow>
               (let file_path = dict_get ir ''file_path'' (JStr []);
                    extracted_data = dict_get ir ''extracted_data'' (JObj [])
                in case check_fields extracted_data of
                     Inl e \<Rightarrow> Inl e
                   | Inr validation_status \<Rightarrow>
                       Inr (JObj
                              [(''task_id'', dict_get ir ''task_id'' JNull),
                               (''status'', dict_get ir ''status'' JNull),
                               (''result_index'', dict_get ir ''result_index'' JNull),
                               (''file_path'', file_path),
                               (''extracted_data'', extracted_data),
                               (''validation_timestamp'', JStr now),
                               (''validation_status'', JStr validation_status),
                               (''batch_info'', info)],
                            validation_status))
           | e # es \<Rightarrow>
               Inr (JObj
                      [(''task_id'', dict_get ir ''task_id'' (JStr ''unknown'')),
                       (''status'', JStr ''validation_failed''),
                       (''result_index'', dict_get ir ''result_index'' (JInt (- 1))),
                       (''file_path'', dict_get ir ''file_path'' (JStr ''unknown'')),
                       (''error'', JStr (describe (e # es))),
                       (''validation_timestamp'', JStr now),
                       (''validation_status'', JStr ''invalid''),
                       (''batch_info'', info)],
                    ''invalid''))
      | _ \<Rightarrow> Inl AttributeError)"

text \<open>
  The schema in the words of the specification: required string fields \<open>task_id\<close>,
  \<open>status\<close>, \<open>file_path\<close>, and a required object \<open>extracted_data\<close> with required string
  fields \<open>title\<close> and \<open>content\<close>; the optional fields, when present, are an object
  \<open>metadata\<close>, an integer \<open>result_index\<close>, an object \<open>batch_info\<close> and a string
  \<open>split_timestamp\<close>.
\<close>

definition required_fields_ok :: "(string \<times> json) list \<Rightarrow> bool" where
  "required_fields_ok ir =
     ((case map_of ir ''task_id'' of Some (JStr s) \<Rightarrow> True | _ \<Rightarrow> False)
    \<and> (case map_of ir ''status'' of Some (JStr s) \<Rightarrow> True | _ \<Rightarrow> False)
    \<and> (case map_of ir ''file_path'' of Some (JStr s) \<Rightarrow> True | _ \<Rightarrow> False)
    \<and> (case map_of ir ''extracted_data'' of
          Some (JObj ed) \<Rightarrow>
            (case map_of ed ''title'' of Some (JStr s) \<Rightarrow> True | _ \<Rightarrow> False)
          \<and> (case map_of ed ''content'' of Some (JStr s) \<Rightarrow> True | _ \<Rightarrow> False)
        | _ \<Rightarrow> False))"

definition optional_fields_ok :: "(string \<times> json) list \<Rightarrow> bool" where
  "optional_fields_ok ir =
     ((case map_of ir ''result_index'' of None \<Rightarrow> True | Some v \<Rightarrow> has_type TInteger v)
    \<and> (case map_of ir ''batch_info'' of None \<Rightarrow> True | Some v \<Rightarrow> has_type TObject v)
    \<and> (case map_of ir ''split_timestamp'' of None \<Rightarrow> True | Some v \<Rightarrow> has_type TString v)
    \<and> (case map_of ir ''extracted_data'' of
          Some (JObj ed) \<Rightarrow>
            (case map_of ed ''metadata'' of None \<Rightarrow> True | Some v \<Rightarrow> has_type TObject v)
        | _ \<Rightarrow> True))"

text \<open>A stand-in for \<open>str(e)\<close> in the concrete examples.\<close>

definition error_count_text :: "verror list \<Rightarrow> string" where
  "error_count_text errs = replicate (length errs) CHR ''E''"

section \<open>Failure router: \<open>nodes/failure_handling.py\<close>\<close>

text \<open>
  \<open>_get_failure_reason\<close>. The status is the node's input \<open>validation_status\<close>; the
  record is the decoded \<open>validated_data\<close>.
\<close>

definition get_failure_reason :: "string \<Rightarrow> json \<Rightarrow> py_error + string" where
  "get_failure_reason status validated =
     (if status = ''invalid'' then Inr ''schema_validation_failed''
      else if status = ''partial'' then
        (case py_get validated ''extracted_data'' (JObj []) of
           Inl e \<Rightarrow> Inl e
         | Inr extracted_data \<Rightarrow>
             (case py_get extracted_data ''title'' JNull of
                Inl e \<Rightarrow> Inl e
              | Inr title \<Rightarrow>
                  if \<not> truthy title then Inr ''missing_title''
                  else
                    (case py_get extracted_data ''content'' JNull of
                       Inl e \<Rightarrow> Inl e
                     | Inr c \<Rightarrow>
                         if \<not> truthy c then Inr ''missing_content''
                         else
                           (case py_get extracted_data ''content'' (JStr []) of
                              Inl e \<Rightarrow> Inl e
                            | Inr content \<Rightarrow>
                                (case strip_len content of
                                   Inl e \<Rightarrow> Inl e
                                 | Inr n \<Rightarrow>
                                     if n < 10 then Inr ''content_too_short''
                                     else Inr ''validation_failed'')))))
      else Inr ''unknown_failure'')"

text \<open>
  The retry ledger is a directory of CSV files: a file is its rows, a row the values
  handed to \<open>writerow\<close>. Opening a file for writing replaces it; on a store that cannot
  be written the open raises.
\<close>

record file_store =
  files :: "string \<Rightarrow> json list list option"
  writable :: bool

text \<open>
  \<open>_create_failure_csv\<close>. \<open>stamp\<close> is \<open>datetime.now().strftime("%Y%m%d_%H%M%S")\<close>, \<open>iso_now\<close>
  is \<open>datetime.now().isoformat()\<close>, \<open>render\<close> is \<open>str\<close> on a value that is not a string
  (the task id inside the file name).
\<close>

definition create_failure_csv ::
  "(json \<Rightarrow> string) \<Rightarrow> string \<Rightarrow> string \<Rightarrow> file_store \<Rightarrow> string \<Rightarrow> json
     \<Rightarrow> (py_error + string) \<times> file_store" where
  "create_failure_csv render stamp iso_now store status validated =
     (case py_get validated ''task_id'' (JStr ''unknown'') of
        Inl e \<Rightarrow> (Inl e, store)
      | Inr task_id \<Rightarrow>
          (let filename = ''failures_'' @ (case task_id of JStr s \<Rightarrow> s | v \<Rightarrow> render v)
                            @ ''_'' @ stamp @ ''.csv'';
               file_path = ''failures/'' @ filename
           in case py_get validated ''file_path'' (JStr []) of
                Inl e \<Rightarrow> (Inl e, store)
              | Inr failed_file_path \<Rightarrow>
                  (case get_failure_reason status validated of
                     Inl e \<Rightarrow> (Inl e, store)
                   | Inr failure_reason \<Rightarrow>
                       if writable store then
                         (Inr file_path,
                          store\<lparr>files := (files store)(file_path \<mapsto>
                            [[JStr ''file_path'', JStr ''failure_reason'', JStr ''task_id'',
                              JStr ''timestamp''],
                             [failed_file_path, JStr failure_reason, task_id, JStr iso_now]])\<rparr>)
                       else (Inl OSError, store))))"

record failure_outputs =
  failure_csv_path :: string
  retry_count :: string

text \<open>
  \<open>FailureHandlingNode.execute\<close> after both JSON inputs are decoded; the log line reads
  \<open>validated_data.get(...)\<close> first.
\<close>

definition handle_failure ::
  "(json \<Rightarrow> string) \<Rightarrow> string \<Rightarrow> string \<Rightarrow> file_store \<Rightarrow> string \<Rightarrow> json
     \<Rightarrow> (py_error + failure_outputs) \<times> file_store" where
  "handle_failure render stamp iso_now store status validated =
     (case validated of
        JObj vd \<Rightarrow>
          if status = ''valid'' then (Inr \<lparr>failure_csv_path = [], retry_count = ''0''\<rparr>, store)
          else
            (case create_failure_csv render stamp iso_now store status validated of
               (Inl e, store') \<Rightarrow> (Inl e, store')
             | (Inr path, store') \<Rightarrow>
                 (Inr \<lparr>failure_csv_path = path,
                       retry_count = (if status = ''invalid'' \<or> status = ''partial''
                                      then ''1'' else ''0'')\<rparr>,
                  store'))
      | _ \<Rightarrow> (Inl AttributeError, store))"

text \<open>
  A field of \<open>extracted_data\<close> as the router reads it: the text of a string, and the
  empty text when the field is absent or null.
\<close>

definition field_text :: "(string \<times> json) list \<Rightarrow> string \<Rightarrow> string option" where
  "field_text ed k =
     (case map_of ed k of
        None \<Rightarrow> Some []
      | Some JNull \<Rightarrow> Some []
      | Some (JStr s) \<Rightarrow> Some s
      | Some _ \<Rightarrow> None)"

section \<open>Result splitter: \<open>nodes/split_results.py\<close>\<close>








text \<open>
  A result entry as the poll controller builds it: an object whose \<open>content\<close> and
  \<open>response_id\<close>, when present, are strings.
\<close>

definition result_entry_ok :: "json \<Rightarrow> bool" where
  "result_entry_ok result =
     (case result of
        JObj r \<Rightarrow>
          (case map_of r ''content'' of None \<Rightarrow> True | Some (JStr s) \<Rightarrow> True | Some _ \<Rightarrow> False)
        \<and> (case map_of r ''response_id'' of None \<Rightarrow> True | Some (JStr s) \<Rightarrow> True | Some _ \<Rightarrow> False)
      | _ \<Rightarrow> False)"

section \<open>Batch submitter: \<open>nodes/file_parsing.py\<close> and \<open>nodes/batch_request.py\<close>\<close>

text \<open>
  The readers behind \<open>_read_file_content\<close>: plain text, PDF and DOCX. A reader returns
  the text, or raises; \<open>Inl\<close> carries \<open>str(e)\<close> of the exception.
\<close>

record file_readers =
  read_text :: "string \<Rightarrow> string + string"
  read_pdf :: "string \<Rightarrow> string + string"
  read_docx :: "string \<Rightarrow> string + string"
  docx_installed :: bool

definition ends_with :: "string \<Rightarrow> string \<Rightarrow> bool" where
  "ends_with s suffix =
     (length suffix \<le> length s \<and> drop (length s - length suffix) s = suffix)"

definition read_file_content :: "file_readers \<Rightarrow> string \<Rightarrow> string + string" where
  "read_file_content rd file_path =
     (if ends_with file_path ''.txt'' then read_text rd file_path
      else if ends_with file_path ''.pdf'' then read_pdf rd file_path
      else if ends_with file_path ''.docx'' then
        (if docx_installed rd then read_docx rd file_path
         else Inr (''[DOCX content from '' @ file_path @ '' - python-docx not installed]''))
      else read_text rd file_path)"

text \<open>
  The body of the loop of \<open>FileParsingNode.execute\<close>: the \<open>try\<close> appends the content,
  the \<open>except\<close> appends the marker and the error text.
\<close>

definition parse_file :: "file_readers \<Rightarrow> string \<Rightarrow> json" where
  "parse_file rd file_path =
     (case read_file_content rd file_path of
        Inr content \<Rightarrow> JObj [(''file_path'', JStr file_path), (''content'', JStr content)]
      | Inl msg \<Rightarrow>
          JObj [(''file_path'', JStr file_path),
                (''content'', JStr (''[ERROR: Failed to read file - '' @ msg @ '']'')),
                (''error'', JStr msg)])"

text \<open>
  The loop of \<open>BatchRequestNode.execute\<close> that builds \<open>inline_requests\<close>, one request per
  parsed file. \<open>file_data['content']\<close> raises \<open>KeyError\<close> on a dict without the key and
  \<open>TypeError\<close> on a value that is not a dict; \<open>render\<close> is \<open>str\<close> on a content that is
  not a string.
\<close>

definition inline_request :: "(json \<Rightarrow> string) \<Rightarrow> string \<Rightarrow> json \<Rightarrow> py_error + json" where
  "inline_request render prompt file_data =
     (case file_data of
        JObj d \<Rightarrow>
          (case map_of d ''content'' of
             None \<Rightarrow> Inl KeyError
           | Some content \<Rightarrow>
               Inr (JObj
                 [(''contents'', JArr
                     [JObj [(''parts'', JArr
                               [JObj [(''text'',
                                  JStr (prompt @ [CHR 0x0A, CHR 0x0A] @ ''Document content:''
                                        @ [CHR 0x0A]
                                        @ (case content of JStr s \<Rightarrow> s | v \<Rightarrow> render v)))]]),
                            (''role'', JStr ''user'')]])]))
      | _ \<Rightarrow> Inl TypeError)"

definition inline_requests :: "(json \<Rightarrow> string) \<Rightarrow> string \<Rightarrow> json list \<Rightarrow> py_error + json list" where
  "inline_requests render prompt parsed = map_err (inline_request render prompt) parsed"

section \<open>The nodes: decoding the inputs, encoding the outputs\<close>

text \<open>
  Each node receives its inputs as strings and returns strings. \<open>json.loads\<close>,
  \<open>json.dumps\<close> and \<open>int\<close> are library code, taken as parameters; a decoder that
  returns \<open>None\<close> stands for the exception the node re-raises. The inputs of a node
  are the last arguments of its function, in the order of its \<open>Inputs\<close> class.
\<close>

record chunking_outputs =
  chunk :: string

text \<open>
  \<open>ChunkingNode.execute\<close>: \<open>loads\<close> decodes the list of paths, \<open>to_int\<close> is \<open>int\<close> on
  the chunk size (\<open>None\<close> is its \<open>ValueError\<close>).
\<close>

definition chunking_execute ::
  "(string \<Rightarrow> 'a list option) \<Rightarrow> (string \<Rightarrow> int option) \<Rightarrow> ('a list \<Rightarrow> string)
     \<Rightarrow> string \<Rightarrow> string \<Rightarrow> py_error + chunking_outputs list" where
  "chunking_execute loads to_int dumps file_paths_in chunk_size_in =
     (case loads file_paths_in of
        None \<Rightarrow> Inl JSONDecodeError
      | Some paths \<Rightarrow>
          (case to_int chunk_size_in of
             None \<Rightarrow> Inl ValueError
           | Some k \<Rightarrow>
               (case create_chunks paths k of
                  Inl e \<Rightarrow> Inl e
                | Inr chunks \<Rightarrow> Inr (map (\<lambda>c. \<lparr>chunk = dumps c\<rparr>) chunks))))"

record parsing_outputs =
  parsed_files :: string
  task_id :: string

text \<open>
  \<open>FileParsingNode.execute\<close>. \<open>loads\<close> decodes the chunk into its list of paths, \<open>uuid\<close>
  is the fresh task id.
\<close>

definition file_parsing_execute ::
  "(string \<Rightarrow> string list option) \<Rightarrow> (json \<Rightarrow> string) \<Rightarrow> file_readers \<Rightarrow> string \<Rightarrow> string
     \<Rightarrow> py_error + parsing_outputs" where
  "file_parsing_execute loads dumps rd uuid chunk_in =
     (case loads chunk_in of
        None \<Rightarrow> Inl JSONDecodeError
      | Some paths \<Rightarrow>
          Inr \<lparr>parsed_files = dumps (JArr (map (parse_file rd) paths)), task_id = uuid\<rparr>)"

record polling_outputs =
  task_result :: string
  batch_info :: string

text \<open>
  \<open>PollingNode.execute\<close>. The first log line reads \<open>batch_info.get('file_count', 0)\<close>,
  which only a dict allows. The requeue signal carries \<open>timedelta(seconds=30)\<close>, here
  the number of seconds.
\<close>

definition polling_execute ::
  "client \<Rightarrow> (string \<Rightarrow> json option) \<Rightarrow> (json \<Rightarrow> string) \<Rightarrow> string \<Rightarrow> string
     \<Rightarrow> polling_outputs outcome" where
  "polling_execute cl loads dumps task_id_in batch_info_in =
     (case loads batch_info_in of
        None \<Rightarrow> Raised JSONDecodeError
      | Some info \<Rightarrow>
          (case py_get info ''file_count'' (JInt 0) of
             Inl e \<Rightarrow> Raised e
           | Inr _ \<Rightarrow>
               (case check_task_status cl task_id_in of
                  (task_status, job) \<Rightarrow>
                    if task_status = ''completed'' then
                      (case get_task_results cl loads task_id_in job of
                         Inl e \<Rightarrow> Raised e
                       | Inr result \<Rightarrow>
                           Returned \<lparr>task_result = dumps result, batch_info = batch_info_in\<rparr>)
                    else if task_status = ''failed'' then
                      Returned \<lparr>task_result = dumps (JObj [(''error'', JStr ''Task failed'')]),
                                batch_info = batch_info_in\<rparr>
                    else ReQueueAfterSignal 30)))"

record split_outputs =
  individual_result :: string
  split_batch_info :: string


record validation_outputs =
  validated_data :: string
  validation_status :: string

text \<open>\<open>ValidationNode.execute\<close>.\<close>

definition validation_execute ::
  "(string \<Rightarrow> json option) \<Rightarrow> (json \<Rightarrow> string) \<Rightarrow> (verror list \<Rightarrow> string) \<Rightarrow> string
     \<Rightarrow> string \<Rightarrow> string \<Rightarrow> py_error + validation_outputs" where
  "validation_execute loads dumps describe now individual_result_in batch_info_in =
     (case loads individual_result_in of
        None \<Rightarrow> Inl JSONDecodeError
      | Some ir \<Rightarrow>
          (case loads batch_info_in of
             None \<Rightarrow> Inl JSONDecodeError
           | Some info \<Rightarrow>
               (case validate_record describe now ir info of
                  Inl e \<Rightarrow> Inl e
                | Inr (vd, st) \<Rightarrow> Inr \<lparr>validated_data = dumps vd, validation_status = st\<rparr>)))"

text \<open>\<open>FailureHandlingNode.execute\<close>, together with the ledger before and after.\<close>

definition failure_execute ::
  "(string \<Rightarrow> json option) \<Rightarrow> (json \<Rightarrow> string) \<Rightarrow> string \<Rightarrow> string \<Rightarrow> file_store
     \<Rightarrow> string \<Rightarrow> string \<Rightarrow> string \<Rightarrow> (py_error + failure_outputs) \<times> file_store" where
  "failure_execute loads render stamp iso_now store validation_status_in batch_info_in
       validated_data_in =
     (case loads batch_info_in of
        None \<Rightarrow> (Inl JSONDecodeError, store)
      | Some info \<Rightarrow>
          (case loads validated_data_in of
             None \<Rightarrow> (Inl JSONDecodeError, store)
           | Some validated \<Rightarrow>
               handle_failure render stamp iso_now store validation_status_in validated))"

section \<open>Properties of the chunk planner\<close>

lemma py_range_from_pos:
  "0 < step \<Longrightarrow> py_range_from i stop step =
     (if i < stop then i # py_range_from (i + step) stop step else [])"
  by (subst py_range_from.simps) simp

lemma py_range_from_neg_empty:
  "step < 0 \<Longrightarrow> i \<le> stop \<Longrightarrow> py_range_from i stop step = []"
  by (subst py_range_from.simps) simp

lemma py_slice_chunk:
  assumes "0 \<le> i" and "0 < k"
  shows "py_slice xs i (i + k) = take (nat k) (drop (nat i) xs)"
proof -
  have a: "slice_bound (length xs) i = min (length xs) (nat i)"
    using assms by (simp add: slice_bound_def)
  have b: "slice_bound (length xs) (i + k) = min (length xs) (nat i + nat k)"
    using assms by (simp add: slice_bound_def nat_add_distrib)
  show ?thesis
  proof (cases "nat i \<le> length xs")
    case True
    then have "take (min (length xs) (nat i + nat k) - nat i) (drop (nat i) xs)
                 = take (nat k) (drop (nat i) xs)"
      by (cases "nat i + nat k \<le> length xs") (simp_all add: min_def)
    then show ?thesis
      using True by (simp add: py_slice_def a b Let_def min_absorb2)
  next
    case False
    then show ?thesis by (simp add: py_slice_def a b Let_def)
  qed
qed

lemma concat_chunks_from:
  "0 < k \<Longrightarrow> 0 \<le> i \<Longrightarrow>
     concat (map (\<lambda>j. py_slice xs j (j + k)) (py_range_from i (int (length xs)) k))
       = drop (nat i) xs"
proof (induction i "int (length xs)" k rule: py_range_from.induct)
  case (1 i step)
  show ?case
  proof (cases "i < int (length xs)")
    case True
    have ih: "concat (map (\<lambda>j. py_slice xs j (j + step))
                (py_range_from (i + step) (int (length xs)) step)) = drop (nat (i + step)) xs"
      using 1(1) [OF _ 1(3)] True 1(3) 1(4) by simp
    have dd: "drop (nat (i + step)) xs = drop (nat step) (drop (nat i) xs)"
      using 1(3) 1(4) by (simp add: nat_add_distrib add.commute)
    have "concat (map (\<lambda>j. py_slice xs j (j + step)) (py_range_from i (int (length xs)) step))
            = py_slice xs i (i + step) @ drop (nat (i + step)) xs"
      using True 1(3) ih by (subst py_range_from_pos) simp_all
    also have "\<dots> = take (nat step) (drop (nat i) xs) @ drop (nat step) (drop (nat i) xs)"
      using 1(3) 1(4) by (simp only: py_slice_chunk dd)
    finally show ?thesis by (simp only: append_take_drop_id)
  next
    case False
    then show ?thesis using 1(3) by (subst py_range_from_pos) simp_all
  qed
qed

lemma length_py_range_from:
  "0 < k \<Longrightarrow> length (py_range_from i n k) = nat (- ((i - n) div k))"
proof (induction i n k rule: py_range_from.induct)
  case (1 i stop step)
  show ?case
  proof (cases "i < stop")
    case True
    have ih: "length (py_range_from (i + step) stop step) = nat (- ((i + step - stop) div step))"
      using 1(1) True 1(3) by simp
    have "(i + step - stop) div step = (i - stop) div step + 1"
      using 1(3) by (metis add.commute add_diff_eq div_add_self1 less_irrefl)
    moreover have "(i - stop) div step < 0"
      using True 1(3) by (simp add: div_neg_pos_less0)
    ultimately show ?thesis
      using True 1(3) ih by (subst py_range_from_pos) (simp_all add: Suc_nat_eq_nat_zadd1)
  next
    case False
    then have "0 \<le> (i - stop) div step" using 1(3) by (simp add: pos_imp_zdiv_nonneg_iff)
    then show ?thesis using False 1(3) by (subst py_range_from_pos) simp_all
  qed
qed

lemma nth_py_range_from:
  "0 < k \<Longrightarrow> m < length (py_range_from i n k) \<Longrightarrow> py_range_from i n k ! m = i + int m * k"
proof (induction i n k arbitrary: m rule: py_range_from.induct)
  case (1 i stop step)
  show ?case
  proof (cases "i < stop")
    case True
    then have eq: "py_range_from i stop step = i # py_range_from (i + step) stop step"
      using 1(3) by (subst py_range_from_pos) simp_all
    show ?thesis
    proof (cases m)
      case 0
      then show ?thesis by (simp add: eq)
    next
      case (Suc m')
      then have "m' < length (py_range_from (i + step) stop step)"
        using 1(4) eq by simp
      then have "py_range_from (i + step) stop step ! m' = i + step + int m' * step"
        using 1(1) True 1(3) by simp
      then show ?thesis using Suc by (simp add: eq algebra_simps)
    qed
  next
    case False
    then have "py_range_from i stop step = []"
      using 1(3) by (subst py_range_from_pos) simp_all
    then show ?thesis using 1(4) by simp
  qed
qed

lemma set_py_range_from:
  "0 < k \<Longrightarrow> j \<in> set (py_range_from i n k) \<Longrightarrow> i \<le> j \<and> j < n"
proof (induction i n k rule: py_range_from.induct)
  case (1 i stop step)
  show ?case
  proof (cases "i < stop")
    case True
    then have eq: "py_range_from i stop step = i # py_range_from (i + step) stop step"
      using 1(3) by (subst py_range_from_pos) simp_all
    show ?thesis
      using 1(4) 1(1) True 1(3) unfolding eq by auto
  next
    case False
    then have "py_range_from i stop step = []"
      using 1(3) by (subst py_range_from_pos) simp_all
    then show ?thesis using 1(4) by simp
  qed
qed


lemma create_chunks_pos:
  "0 < k \<Longrightarrow> create_chunks xs k =
     Inr (map (\<lambda>i. py_slice xs i (i + k)) (py_range_from 0 (int (length xs)) k))"
  by (simp add: create_chunks_def py_range_def)

lemma chunk_count_ceiling:
  assumes "0 < k"
  shows "int (length (py_range_from 0 (int n) k)) = \<lceil>real n / real_of_int k\<rceil>"
proof -
  have "\<lceil>real n / real_of_int k\<rceil> = - (- int n div k)"
    using ceiling_divide_eq_div [of "int n" k] by simp
  moreover have "0 \<le> - (- int n div k)"
    using assms by (simp add: div_nonpos_pos_le0)
  ultimately show ?thesis
    using assms by (simp add: length_py_range_from)
qed

text \<open>
  C3. For a chunk size of at least 1 and a list of N paths, the planner returns
  ceil(N / chunk_size) chunks; their concatenation in order is the input list; every
  chunk has at most chunk_size elements, and every chunk but the last has exactly
  chunk_size.
\<close>

theorem chunking_partitions_input:
  assumes "loads fp = Some paths"
    and "to_int cs = Some k"
    and "1 \<le> k"
  shows "\<exists>chunks.
           chunking_execute loads to_int dumps fp cs = Inr (map (\<lambda>c. \<lparr>chunk = dumps c\<rparr>) chunks)
         \<and> int (length chunks) = \<lceil>real (length paths) / real_of_int k\<rceil>
         \<and> concat chunks = paths
         \<and> (\<forall>c \<in> set chunks. int (length c) \<le> k)
         \<and> (\<forall>m. Suc m < length chunks \<longrightarrow> int (length (chunks ! m)) = k)"
proof -
  define starts where "starts = py_range_from 0 (int (length paths)) k"
  define chunks where "chunks = map (\<lambda>i. py_slice paths i (i + k)) starts"
  have k: "0 < k" using assms(3) by simp
  have cc: "create_chunks paths k = Inr chunks"
    using k by (simp add: create_chunks_pos chunks_def starts_def)
  have ex: "chunking_execute loads to_int dumps fp cs = Inr (map (\<lambda>c. \<lparr>chunk = dumps c\<rparr>) chunks)"
    by (simp add: chunking_execute_def assms(1,2) cc)
  have len: "int (length chunks) = \<lceil>real (length paths) / real_of_int k\<rceil>"
    using chunk_count_ceiling [OF k] by (simp add: chunks_def starts_def)
  have cat: "concat chunks = paths"
    using concat_chunks_from [OF k, of 0 paths] by (simp add: chunks_def starts_def)
  have bound: "\<forall>c \<in> set chunks. int (length c) \<le> k"
  proof
    fix c assume "c \<in> set chunks"
    then obtain j where j: "j \<in> set starts" and c: "c = py_slice paths j (j + k)"
      by (auto simp: chunks_def)
    have "0 \<le> j" using set_py_range_from [OF k] j by (auto simp: starts_def)
    then show "int (length c) \<le> k"
      using k by (simp add: c py_slice_chunk)
  qed
  have full: "\<forall>m. Suc m < length chunks \<longrightarrow> int (length (chunks ! m)) = k"
  proof (intro allI impI)
    fix m assume m: "Suc m < length chunks"
    then have sm: "Suc m < length starts" and m': "m < length starts"
      by (simp_all add: chunks_def)
    have a: "starts ! m = int m * k"
      using nth_py_range_from [OF k, of m 0] m' by (simp add: starts_def)
    have b: "starts ! Suc m = int (Suc m) * k"
      using nth_py_range_from [OF k, of "Suc m" 0] sm by (simp add: starts_def)
    have "starts ! Suc m \<in> set starts" using sm by simp
    then have "starts ! Suc m < int (length paths)"
      using set_py_range_from [OF k] by (auto simp: starts_def)
    then have lt: "int m * k + k < int (length paths)"
      by (simp add: b algebra_simps)
    have nn: "0 \<le> int m * k" using k by simp
    have "chunks ! m = take (nat k) (drop (nat (int m * k)) paths)"
      using m' k nn by (simp add: chunks_def a py_slice_chunk)
    moreover have "nat (int m * k) + nat k \<le> length paths"
      using lt nn k by linarith
    ultimately show "int (length (chunks ! m)) = k"
      using k by simp
  qed
  show ?thesis using ex len cat bound full by blast
qed

text \<open>
  C4, as the code has it. The planner does not check the chunk size. A chunk size of 0
  fails with the \<open>ValueError\<close> that \<open>range\<close> raises for a zero step; a negative
  chunk size does not fail: the range is empty and the planner returns no chunks.
\<close>

theorem chunking_nonpositive_size:
  assumes "loads fp = Some paths"
    and "to_int cs = Some k"
    and "k < 1"
  shows "chunking_execute loads to_int dumps fp cs = (if k = 0 then Inl ValueError else Inr [])"
  using assms
  by (simp add: chunking_execute_def create_chunks_def py_range_def py_range_from_neg_empty)

text \<open>
  The claim C4 as stated fails: three paths and a chunk size of -1 give the empty
  sequence of chunks, not an error.
\<close>

theorem chunking_negative_size_counterexample:
  "create_chunks [''a.txt'', ''b.txt'', ''c.txt''] (- 1) = Inr []"
  by (simp add: create_chunks_def py_range_def py_range_from_neg_empty)

theorem chunking_partitions_input_witness:
  "\<exists>chunks.
      chunking_execute (\<lambda>s. Some [''a'', ''b'', ''c'', ''d'', ''e'', ''f'', ''g'', ''h'', ''i'', ''j'', ''k'', ''l'']) (\<lambda>s. Some 5)
          (\<lambda>c. ''chunk'') ''paths'' ''5''
        = Inr (map (\<lambda>c. \<lparr>chunk = ''chunk''\<rparr>) chunks)
    \<and> int (length chunks) = 3
    \<and> concat chunks = [''a'', ''b'', ''c'', ''d'', ''e'', ''f'', ''g'', ''h'', ''i'', ''j'', ''k'', ''l'']
    \<and> (\<forall>c \<in> set chunks. int (length c) \<le> 5)
    \<and> (\<forall>m. Suc m < length chunks \<longrightarrow> int (length (chunks ! m)) = 5)"
  using chunking_partitions_input
          [where loads = "\<lambda>s. Some [''a'', ''b'', ''c'', ''d'', ''e'', ''f'', ''g'', ''h'', ''i'', ''j'', ''k'', ''l'']"
             and fp = "''paths''" and cs = "''5''" and to_int = "\<lambda>s. Some 5" and k = 5
             and paths = "[''a'', ''b'', ''c'', ''d'', ''e'', ''f'', ''g'', ''h'', ''i'', ''j'', ''k'', ''l'']"
             and dumps = "\<lambda>c. ''chunk''"]
  by simp

theorem chunking_nonpositive_size_witness:
  "chunking_execute (\<lambda>s. Some [''a'', ''b'', ''c'']) (\<lambda>s. Some (- 2)) (\<lambda>c. ''chunk'')
       ''paths'' ''-2'' = Inr []"
  using chunking_nonpositive_size
          [where loads = "\<lambda>s. Some [''a'', ''b'', ''c'']"
             and fp = "''paths''" and cs = "''-2''" and to_int = "\<lambda>s. Some (- 2)" and k = "- 2"
             and paths = "[''a'', ''b'', ''c'']" and dumps = "\<lambda>c. ''chunk''"]
  by simp

text \<open>The scenario of twelve paths in chunks of five: sizes 5, 5 and 2.\<close>

lemma chunking_scenario:
  "create_chunks [''a'', ''b'', ''c'', ''d'', ''e'', ''f'', ''g'', ''h'', ''i'', ''j'', ''k'', ''l''] 5
     = Inr [[''a'', ''b'', ''c'', ''d'', ''e''], [''f'', ''g'', ''h'', ''i'', ''j''], [''k'', ''l'']]"
  by (simp add: create_chunks_def py_range_def py_range_from.simps py_slice_def slice_bound_def)

section \<open>Properties of the poll controller\<close>

lemma check_task_status_job:
  "batches_get cl tid = Inr job \<Longrightarrow>
     check_task_status cl tid =
       (case map_of status_mapping (state_name job) of
          None \<Rightarrow> (''pending'', Some job)
        | Some mapped_status \<Rightarrow> (mapped_status, Some job))"
  by (simp add: check_task_status_def)

lemma polling_execute_requeue:
  assumes "loads batch_info_in = Some (JObj info)"
    and "fst (check_task_status cl tid) \<noteq> ''completed''"
    and "fst (check_task_status cl tid) \<noteq> ''failed''"
  shows "polling_execute cl loads dumps tid batch_info_in = ReQueueAfterSignal 30"
proof (cases "check_task_status cl tid")
  case (Pair task_status batch_job)
  then show ?thesis
    using assms by (simp add: polling_execute_def py_get_def)
qed


text \<open>
  C1. A poll check maps the service's status code to the internal state: pending to
  pending, running to processing, succeeded to completed, failed to failed, cancelling
  to processing, cancelled to failed. Whenever the mapped state is pending or
  processing, the check returns no result and raises the requeue signal with a delay
  of 30 seconds.
\<close>

theorem poll_status_mapping_requeue:
  assumes "loads batch_info_in = Some (JObj info)"
    and "batches_get cl tid = Inr job"
  shows "(state_name job = ''JOB_STATE_PENDING'' \<longrightarrow> fst (check_task_status cl tid) = ''pending'')
       \<and> (state_name job = ''JOB_STATE_RUNNING'' \<longrightarrow> fst (check_task_status cl tid) = ''processing'')
       \<and> (state_name job = ''JOB_STATE_SUCCEEDED'' \<longrightarrow> fst (check_task_status cl tid) = ''completed'')
       \<and> (state_name job = ''JOB_STATE_FAILED'' \<longrightarrow> fst (check_task_status cl tid) = ''failed'')
       \<and> (state_name job = ''JOB_STATE_CANCELLING'' \<longrightarrow> fst (check_task_status cl tid) = ''processing'')
       \<and> (state_name job = ''JOB_STATE_CANCELLED'' \<longrightarrow> fst (check_task_status cl tid) = ''failed'')
       \<and> (fst (check_task_status cl tid) = ''pending''
            \<or> fst (check_task_status cl tid) = ''processing''
          \<longrightarrow> polling_execute cl loads dumps tid batch_info_in = ReQueueAfterSignal 30)"
proof -
  have m: "state_name job = s \<Longrightarrow> map_of status_mapping s = Some t \<Longrightarrow>
             fst (check_task_status cl tid) = t" for s t
    using assms(2) by (simp add: check_task_status_job)
  have "fst (check_task_status cl tid) = ''pending''
          \<or> fst (check_task_status cl tid) = ''processing''
        \<Longrightarrow> polling_execute cl loads dumps tid batch_info_in = ReQueueAfterSignal 30"
    using polling_execute_requeue [of loads batch_info_in info cl tid dumps] assms(1)
    by auto
  moreover have "state_name job = ''JOB_STATE_PENDING'' \<longrightarrow> fst (check_task_status cl tid) = ''pending''"
    by (auto intro: m simp: status_mapping_def)
  moreover have "state_name job = ''JOB_STATE_RUNNING'' \<longrightarrow> fst (check_task_status cl tid) = ''processing''"
    by (auto intro: m simp: status_mapping_def)
  moreover have "state_name job = ''JOB_STATE_SUCCEEDED'' \<longrightarrow> fst (check_task_status cl tid) = ''completed''"
    by (auto intro: m simp: status_mapping_def)
  moreover have "state_name job = ''JOB_STATE_FAILED'' \<longrightarrow> fst (check_task_status cl tid) = ''failed''"
    by (auto intro: m simp: status_mapping_def)
  moreover have "state_name job = ''JOB_STATE_CANCELLING'' \<longrightarrow> fst (check_task_status cl tid) = ''processing''"
    by (auto intro: m simp: status_mapping_def)
  moreover have "state_name job = ''JOB_STATE_CANCELLED'' \<longrightarrow> fst (check_task_status cl tid) = ''failed''"
    by (auto intro: m simp: status_mapping_def)
  ultimately show ?thesis by blast
qed

theorem poll_status_mapping_requeue_witness:
  "fst (check_task_status
          \<lparr>batches_get = (\<lambda>n. Inr \<lparr>state_name = ''JOB_STATE_RUNNING'', dest = None\<rparr>),
           files_download = (\<lambda>f. Inl OSError)\<rparr> ''batches/1'') = ''processing''
   \<and> polling_execute
          \<lparr>batches_get = (\<lambda>n. Inr \<lparr>state_name = ''JOB_STATE_RUNNING'', dest = None\<rparr>),
           files_download = (\<lambda>f. Inl OSError)\<rparr>
          (\<lambda>s. Some (JObj [])) (\<lambda>j. ''json'') ''batches/1'' ''{}'' = ReQueueAfterSignal 30"
  using poll_status_mapping_requeue
          [of "\<lambda>s. Some (JObj [])" "''{}''" "[]"
              "\<lparr>batches_get = (\<lambda>n. Inr \<lparr>state_name = ''JOB_STATE_RUNNING'', dest = None\<rparr>),
                files_download = (\<lambda>f. Inl OSError)\<rparr>"
              "''batches/1''" "\<lparr>state_name = ''JOB_STATE_RUNNING'', dest = None\<rparr>" "\<lambda>j. ''json''"]
  by simp

text \<open>
  C10. A status code outside the six mapped codes is mapped to pending, so a check that
  observes it returns no result: it raises the requeue signal with the 30-second delay.
\<close>

theorem poll_unrecognized_status_requeues:
  assumes "loads batch_info_in = Some (JObj info)"
    and "batches_get cl tid = Inr job"
    and "state_name job \<notin> {''JOB_STATE_PENDING'', ''JOB_STATE_RUNNING'', ''JOB_STATE_SUCCEEDED'',
                           ''JOB_STATE_FAILED'', ''JOB_STATE_CANCELLING'', ''JOB_STATE_CANCELLED''}"
  shows "check_task_status cl tid = (''pending'', Some job)
       \<and> polling_execute cl loads dumps tid batch_info_in = ReQueueAfterSignal 30"
proof -
  have "map_of status_mapping (state_name job) = None"
    using assms(3) by (simp add: status_mapping_def)
  then have c: "check_task_status cl tid = (''pending'', Some job)"
    using assms(2) by (simp add: check_task_status_job)
  then have "polling_execute cl loads dumps tid batch_info_in = ReQueueAfterSignal 30"
    using polling_execute_requeue [of loads batch_info_in info cl tid dumps] assms(1)
    by simp
  with c show ?thesis by simp
qed

theorem poll_unrecognized_status_requeues_witness:
  "check_task_status
      \<lparr>batches_get = (\<lambda>n. Inr \<lparr>state_name = ''JOB_STATE_PAUSED'', dest = None\<rparr>),
       files_download = (\<lambda>f. Inl OSError)\<rparr> ''batches/1''
     = (''pending'', Some \<lparr>state_name = ''JOB_STATE_PAUSED'', dest = None\<rparr>)
   \<and> polling_execute
      \<lparr>batches_get = (\<lambda>n. Inr \<lparr>state_name = ''JOB_STATE_PAUSED'', dest = None\<rparr>),
       files_download = (\<lambda>f. Inl OSError)\<rparr>
      (\<lambda>s. Some (JObj [])) (\<lambda>j. ''json'') ''batches/1'' ''{}'' = ReQueueAfterSignal 30"
  using poll_unrecognized_status_requeues
          [of "\<lambda>s. Some (JObj [])" "''{}''" "[]"
              "\<lparr>batches_get = (\<lambda>n. Inr \<lparr>state_name = ''JOB_STATE_PAUSED'', dest = None\<rparr>),
                files_download = (\<lambda>f. Inl OSError)\<rparr>"
              "''batches/1''" "\<lparr>state_name = ''JOB_STATE_PAUSED'', dest = None\<rparr>" "\<lambda>j. ''json''"]
  by simp



section \<open>Properties of the validator\<close>

text \<open>
  The schema of the code accepts exactly the records that the specification describes.
\<close>

lemma schema_errors_leaf:
  "schema_errors p (Schema t [] []) v = [] \<longleftrightarrow> has_type t v"
  by (cases v) simp_all

lemma schema_errors_object:
  "schema_errors p (Schema TObject props req) v = [] \<longleftrightarrow>
     (\<exists>d. v = JObj d
        \<and> (\<forall>(k, s) \<in> set props. \<forall>x. map_of d k = Some x \<longrightarrow> schema_errors (p @ [k]) s x = [])
        \<and> (\<forall>k \<in> set req. map_of d k \<noteq> None))"
  by (cases v) (auto simp: filter_empty_conv split: option.splits)

lemma has_type_string: "has_type TString v \<longleftrightarrow> (\<exists>s. v = JStr s)"
  by (cases v) simp_all

lemma has_type_object: "has_type TObject v \<longleftrightarrow> (\<exists>d. v = JObj d)"
  by (cases v) simp_all

lemma case_string_field:
  "(case m of Some (JStr s) \<Rightarrow> True | _ \<Rightarrow> False) = (\<exists>s. m = Some (JStr s))"
  by (simp split: option.splits json.splits)

lemma case_optional_field:
  "(case m of None \<Rightarrow> True | Some v \<Rightarrow> P v) = (\<forall>v. m = Some v \<longrightarrow> P v)"
  by (simp split: option.splits)

lemma case_object_required:
  "(case m of Some (JObj d) \<Rightarrow> Q d | _ \<Rightarrow> False) = (\<exists>d. m = Some (JObj d) \<and> Q d)"
  by (simp split: option.splits json.splits)

lemma case_object_optional:
  "(case m of Some (JObj d) \<Rightarrow> Q d | _ \<Rightarrow> True) = (\<forall>d. m = Some (JObj d) \<longrightarrow> Q d)"
  by (simp split: option.splits json.splits)

lemma extracted_data_schema:
  "schema_errors p
       (Schema TObject
          [(''title'', Schema TString [] []),
           (''content'', Schema TString [] []),
           (''metadata'', Schema TObject [] [])]
          [''title'', ''content'']) v = [] \<longleftrightarrow>
     (\<exists>ed. v = JObj ed
        \<and> (\<exists>s. map_of ed ''title'' = Some (JStr s))
        \<and> (\<exists>s. map_of ed ''content'' = Some (JStr s))
        \<and> (\<forall>x. map_of ed ''metadata'' = Some x \<longrightarrow> has_type TObject x))"
  unfolding schema_errors_object
  by (auto simp: schema_errors_leaf has_type_string simp del: schema_errors.simps)

lemma schema_ok_iff:
  "schema_errors [] validation_schema (JObj ir) = [] \<longleftrightarrow>
     required_fields_ok ir \<and> optional_fields_ok ir"
proof -
  have "schema_errors [] validation_schema (JObj ir) = [] \<longleftrightarrow>
          (\<exists>s. map_of ir ''task_id'' = Some (JStr s))
        \<and> (\<exists>s. map_of ir ''status'' = Some (JStr s))
        \<and> (\<exists>s. map_of ir ''file_path'' = Some (JStr s))
        \<and> (\<exists>ed. map_of ir ''extracted_data'' = Some (JObj ed)
              \<and> (\<exists>s. map_of ed ''title'' = Some (JStr s))
              \<and> (\<exists>s. map_of ed ''content'' = Some (JStr s))
              \<and> (\<forall>x. map_of ed ''metadata'' = Some x \<longrightarrow> has_type TObject x))
        \<and> (\<forall>v. map_of ir ''result_index'' = Some v \<longrightarrow> has_type TInteger v)
        \<and> (\<forall>v. map_of ir ''batch_info'' = Some v \<longrightarrow> has_type TObject v)
        \<and> (\<forall>v. map_of ir ''split_timestamp'' = Some v \<longrightarrow> has_type TString v)"
    unfolding validation_schema_def schema_errors_object
    by (auto simp: schema_errors_leaf extracted_data_schema has_type_string
             simp del: schema_errors.simps)
  also have "\<dots> \<longleftrightarrow> required_fields_ok ir \<and> optional_fields_ok ir"
    unfolding required_fields_ok_def optional_fields_ok_def
      case_string_field case_optional_field case_object_required case_object_optional
    by auto
  finally show ?thesis .
qed

lemma check_fields_strings:
  assumes "map_of ed ''title'' = Some (JStr t)" and "map_of ed ''content'' = Some (JStr c)"
  shows "check_fields (JObj ed) =
           Inr (if t = [] \<or> c = [] \<or> length (py_strip c) < 10 then ''partial'' else ''valid'')"
  using assms by (simp add: check_fields_def py_get_def dict_get_def strip_len_def)

lemma validate_record_invalid:
  assumes "schema_errors [] validation_schema (JObj ir) \<noteq> []"
  shows "validate_record describe now (JObj ir) info =
           Inr (JObj
                  [(''task_id'', dict_get ir ''task_id'' (JStr ''unknown'')),
                   (''status'', JStr ''validation_failed''),
                   (''result_index'', dict_get ir ''result_index'' (JInt (- 1))),
                   (''file_path'', dict_get ir ''file_path'' (JStr ''unknown'')),
                   (''error'', JStr (describe (schema_errors [] validation_schema (JObj ir)))),
                   (''validation_timestamp'', JStr now),
                   (''validation_status'', JStr ''invalid''),
                   (''batch_info'', info)],
                ''invalid'')"
proof (cases "schema_errors [] validation_schema (JObj ir)")
  case Nil
  with assms show ?thesis by simp
next
  case (Cons e es)
  then show ?thesis
    by (simp add: validate_record_def del: schema_errors.simps)
qed

lemma validate_record_passed:
  assumes "schema_errors [] validation_schema (JObj ir) = []"
    and "map_of ir ''extracted_data'' = Some (JObj ed)"
    and "map_of ed ''title'' = Some (JStr t)" and "map_of ed ''content'' = Some (JStr c)"
  shows "validate_record describe now (JObj ir) info =
           Inr (JObj
                  [(''task_id'', dict_get ir ''task_id'' JNull),
                   (''status'', dict_get ir ''status'' JNull),
                   (''result_index'', dict_get ir ''result_index'' JNull),
                   (''file_path'', dict_get ir ''file_path'' (JStr [])),
                   (''extracted_data'', JObj ed),
                   (''validation_timestamp'', JStr now),
                   (''validation_status'',
                      JStr (if t = [] \<or> c = [] \<or> length (py_strip c) < 10
                            then ''partial'' else ''valid'')),
                   (''batch_info'', info)],
                if t = [] \<or> c = [] \<or> length (py_strip c) < 10 then ''partial'' else ''valid'')"
proof -
  have ed: "dict_get ir ''extracted_data'' (JObj []) = JObj ed"
    using assms(2) by (simp add: dict_get_def)
  show ?thesis
    using assms(1)
    by (simp add: validate_record_def Let_def ed check_fields_strings [OF assms(3,4)]
             del: schema_errors.simps)
qed

text \<open>
  C5, as the code has it. For an individual result that decodes to a JSON object (and
  a batch info that decodes): when the record fails the schema, the validator returns
  the status invalid with a record that carries the description of the failure, and
  no further check runs; when it passes the schema, the status is partial if the title
  or the content is empty or the stripped content has fewer than 10 characters, and
  valid otherwise.
\<close>

theorem validation_classifies_objects:
  assumes "loads ir_in = Some (JObj ir)" and "loads bi_in = Some info"
  shows "(\<not> (required_fields_ok ir \<and> optional_fields_ok ir) \<longrightarrow>
            schema_errors [] validation_schema (JObj ir) \<noteq> []
          \<and> validation_execute loads dumps describe now ir_in bi_in =
              Inr \<lparr>validated_data = dumps (JObj
                     [(''task_id'', dict_get ir ''task_id'' (JStr ''unknown'')),
                      (''status'', JStr ''validation_failed''),
                      (''result_index'', dict_get ir ''result_index'' (JInt (- 1))),
                      (''file_path'', dict_get ir ''file_path'' (JStr ''unknown'')),
                      (''error'', JStr (describe (schema_errors [] validation_schema (JObj ir)))),
                      (''validation_timestamp'', JStr now),
                      (''validation_status'', JStr ''invalid''),
                      (''batch_info'', info)]),
                   validation_status = ''invalid''\<rparr>)
       \<and> (required_fields_ok ir \<and> optional_fields_ok ir \<longrightarrow>
            (\<exists>ed t c.
                map_of ir ''extracted_data'' = Some (JObj ed)
              \<and> map_of ed ''title'' = Some (JStr t)
              \<and> map_of ed ''content'' = Some (JStr c)
              \<and> validation_execute loads dumps describe now ir_in bi_in =
                  Inr \<lparr>validated_data = dumps (JObj
                         [(''task_id'', dict_get ir ''task_id'' JNull),
                          (''status'', dict_get ir ''status'' JNull),
                          (''result_index'', dict_get ir ''result_index'' JNull),
                          (''file_path'', dict_get ir ''file_path'' (JStr [])),
                          (''extracted_data'', JObj ed),
                          (''validation_timestamp'', JStr now),
                          (''validation_status'',
                             JStr (if t = [] \<or> c = [] \<or> length (py_strip c) < 10
                                   then ''partial'' else ''valid'')),
                          (''batch_info'', info)]),
                       validation_status =
                         (if t = [] \<or> c = [] \<or> length (py_strip c) < 10
                          then ''partial'' else ''valid'')\<rparr>))"
proof (intro conjI impI)
  assume bad: "\<not> (required_fields_ok ir \<and> optional_fields_ok ir)"
  then show ne: "schema_errors [] validation_schema (JObj ir) \<noteq> []"
    by (simp only: schema_ok_iff not_False_eq_True)
  show "validation_execute loads dumps describe now ir_in bi_in =
              Inr \<lparr>validated_data = dumps (JObj
                     [(''task_id'', dict_get ir ''task_id'' (JStr ''unknown'')),
                      (''status'', JStr ''validation_failed''),
                      (''result_index'', dict_get ir ''result_index'' (JInt (- 1))),
                      (''file_path'', dict_get ir ''file_path'' (JStr ''unknown'')),
                      (''error'', JStr (describe (schema_errors [] validation_schema (JObj ir)))),
                      (''validation_timestamp'', JStr now),
                      (''validation_status'', JStr ''invalid''),
                      (''batch_info'', info)]),
                   validation_status = ''invalid''\<rparr>"
    by (simp add: validation_execute_def assms validate_record_invalid [OF ne]
             del: schema_errors.simps)
next
  assume ok: "required_fields_ok ir \<and> optional_fields_ok ir"
  then have pass: "schema_errors [] validation_schema (JObj ir) = []"
    by (simp only: schema_ok_iff)
  from ok obtain ed where ed: "map_of ir ''extracted_data'' = Some (JObj ed)"
    and tc: "(\<exists>s. map_of ed ''title'' = Some (JStr s)) \<and> (\<exists>s. map_of ed ''content'' = Some (JStr s))"
    unfolding required_fields_ok_def case_string_field case_object_required by blast
  then obtain t c where t: "map_of ed ''title'' = Some (JStr t)"
    and c: "map_of ed ''content'' = Some (JStr c)" by blast
  have "validation_execute loads dumps describe now ir_in bi_in =
                  Inr \<lparr>validated_data = dumps (JObj
                         [(''task_id'', dict_get ir ''task_id'' JNull),
                          (''status'', dict_get ir ''status'' JNull),
                          (''result_index'', dict_get ir ''result_index'' JNull),
                          (''file_path'', dict_get ir ''file_path'' (JStr [])),
                          (''extracted_data'', JObj ed),
                          (''validation_timestamp'', JStr now),
                          (''validation_status'',
                             JStr (if t = [] \<or> c = [] \<or> length (py_strip c) < 10
                                   then ''partial'' else ''valid'')),
                          (''batch_info'', info)]),
                       validation_status =
                         (if t = [] \<or> c = [] \<or> length (py_strip c) < 10
                          then ''partial'' else ''valid'')\<rparr>"
    by (simp add: validation_execute_def assms validate_record_passed [OF pass ed t c]
             del: schema_errors.simps)
  with ed t c show "\<exists>ed t c.
                map_of ir ''extracted_data'' = Some (JObj ed)
              \<and> map_of ed ''title'' = Some (JStr t)
              \<and> map_of ed ''content'' = Some (JStr c)
              \<and> validation_execute loads dumps describe now ir_in bi_in =
                  Inr \<lparr>validated_data = dumps (JObj
                         [(''task_id'', dict_get ir ''task_id'' JNull),
                          (''status'', dict_get ir ''status'' JNull),
                          (''result_index'', dict_get ir ''result_index'' JNull),
                          (''file_path'', dict_get ir ''file_path'' (JStr [])),
                          (''extracted_data'', JObj ed),
                          (''validation_timestamp'', JStr now),
                          (''validation_status'',
                             JStr (if t = [] \<or> c = [] \<or> length (py_strip c) < 10
                                   then ''partial'' else ''valid'')),
                          (''batch_info'', info)]),
                       validation_status =
                         (if t = [] \<or> c = [] \<or> length (py_strip c) < 10
                          then ''partial'' else ''valid'')\<rparr>"
    by blast
qed

text \<open>
  The claim C5 as stated fails: an individual result that decodes to a JSON array
  fails the schema, and the validator raises \<open>AttributeError\<close> at its first log line
  instead of returning the status invalid.
\<close>

theorem validation_non_object_counterexample:
  "schema_errors [] validation_schema (JArr []) \<noteq> []
   \<and> validate_record error_count_text ''2025-01-01T00:00:00'' (JArr []) (JObj []) = Inl AttributeError"
  by (simp add: validate_record_def validation_schema_def)

theorem validation_classifies_objects_witness:
  "validation_execute
       (\<lambda>s. if s = ''r'' then Some (JObj [(''task_id'', JStr ''t1'')]) else Some (JObj []))
       (\<lambda>j. ''json'') error_count_text ''2025-01-01T00:00:00'' ''r'' ''{}''
     = Inr \<lparr>validated_data = ''json'', validation_status = ''invalid''\<rparr>
   \<and> validation_execute
       (\<lambda>s. if s = ''r'' then Some (JObj
                [(''task_id'', JStr ''t1''), (''status'', JStr ''completed''),
                 (''file_path'', JStr ''a.txt''),
                 (''extracted_data'', JObj [(''title'', JStr ''Report''),
                                            (''content'', JStr ''  too short  '')])])
             else Some (JObj []))
       (\<lambda>j. ''json'') error_count_text ''2025-01-01T00:00:00'' ''r'' ''{}''
     = Inr \<lparr>validated_data = ''json'', validation_status = ''partial''\<rparr>
   \<and> validation_execute
       (\<lambda>s. if s = ''r'' then Some (JObj
                [(''task_id'', JStr ''t1''), (''status'', JStr ''completed''),
                 (''file_path'', JStr ''a.txt''),
                 (''extracted_data'', JObj [(''title'', JStr ''Report''),
                                            (''content'', JStr ''long enough text'')])])
             else Some (JObj []))
       (\<lambda>j. ''json'') error_count_text ''2025-01-01T00:00:00'' ''r'' ''{}''
     = Inr \<lparr>validated_data = ''json'', validation_status = ''valid''\<rparr>"
  using validation_classifies_objects
          [where loads = "\<lambda>s. if s = ''r'' then Some (JObj [(''task_id'', JStr ''t1'')])
                              else Some (JObj [])"
             and ir_in = "''r''" and bi_in = "''{}''" and info = "JObj []"
             and ir = "[(''task_id'', JStr ''t1'')]"
             and dumps = "\<lambda>j. ''json''" and describe = error_count_text
             and now = "''2025-01-01T00:00:00''"]
        validation_classifies_objects
          [where loads = "\<lambda>s. if s = ''r'' then Some (JObj
                [(''task_id'', JStr ''t1''), (''status'', JStr ''completed''),
                 (''file_path'', JStr ''a.txt''),
                 (''extracted_data'', JObj [(''title'', JStr ''Report''),
                                            (''content'', JStr ''  too short  '')])])
             else Some (JObj [])"
             and ir_in = "''r''" and bi_in = "''{}''" and info = "JObj []"
             and ir = "[(''task_id'', JStr ''t1''), (''status'', JStr ''completed''),
                 (''file_path'', JStr ''a.txt''),
                 (''extracted_data'', JObj [(''title'', JStr ''Report''),
                                            (''content'', JStr ''  too short  '')])]"
             and dumps = "\<lambda>j. ''json''" and describe = error_count_text
             and now = "''2025-01-01T00:00:00''"]
        validation_classifies_objects
          [where loads = "\<lambda>s. if s = ''r'' then Some (JObj
                [(''task_id'', JStr ''t1''), (''status'', JStr ''completed''),
                 (''file_path'', JStr ''a.txt''),
                 (''extracted_data'', JObj [(''title'', JStr ''Report''),
                                            (''content'', JStr ''long enough text'')])])
             else Some (JObj [])"
             and ir_in = "''r''" and bi_in = "''{}''" and info = "JObj []"
             and ir = "[(''task_id'', JStr ''t1''), (''status'', JStr ''completed''),
                 (''file_path'', JStr ''a.txt''),
                 (''extracted_data'', JObj [(''title'', JStr ''Report''),
                                            (''content'', JStr ''long enough text'')])]"
             and dumps = "\<lambda>j. ''json''" and describe = error_count_text
             and now = "''2025-01-01T00:00:00''"]
  by (simp add: required_fields_ok_def optional_fields_ok_def py_strip_def is_space_def
                whitespace_def)

lemma validate_record_total:
  "\<exists>vd st. validate_record describe now (JObj ir) info = Inr (vd, st)
          \<and> (st = ''invalid'') = (schema_errors [] validation_schema (JObj ir) \<noteq> [])"
proof (cases "schema_errors [] validation_schema (JObj ir) = []")
  case True
  then have ok: "required_fields_ok ir" by (simp only: schema_ok_iff)
  then obtain ed where ed: "map_of ir ''extracted_data'' = Some (JObj ed)"
    and tc: "(\<exists>s. map_of ed ''title'' = Some (JStr s)) \<and> (\<exists>s. map_of ed ''content'' = Some (JStr s))"
    unfolding required_fields_ok_def case_string_field case_object_required by blast
  then obtain t c where t: "map_of ed ''title'' = Some (JStr t)"
    and c: "map_of ed ''content'' = Some (JStr c)" by blast
  show ?thesis
    using True by (simp add: validate_record_passed [OF True ed t c] del: schema_errors.simps)
next
  case False
  then show ?thesis
    by (simp add: validate_record_invalid [OF False] del: schema_errors.simps)
qed

text \<open>
  C7, as the code has it. The validation status is a function of the individual result
  alone: the batch info, the clock and the rendering of the error have no part in it.
  Two individual results (JSON objects) with equal \<open>extracted_data\<close> get the same status
  when both pass or both fail the schema; the schema also reads the other fields, so
  equal \<open>extracted_data\<close> alone does not decide the status.
\<close>

theorem validation_status_determined:
  assumes "map_of ir1 ''extracted_data'' = map_of ir2 ''extracted_data''"
    and "(schema_errors [] validation_schema (JObj ir1) = [])
           = (schema_errors [] validation_schema (JObj ir2) = [])"
  shows "\<exists>st vd1 vd2.
           validate_record describe1 now1 (JObj ir1) info1 = Inr (vd1, st)
         \<and> validate_record describe2 now2 (JObj ir2) info2 = Inr (vd2, st)"
proof (cases "schema_errors [] validation_schema (JObj ir1) = []")
  case True
  then have p2: "schema_errors [] validation_schema (JObj ir2) = []"
    using assms(2) by simp
  from True have ok: "required_fields_ok ir1" by (simp only: schema_ok_iff)
  then obtain ed where ed: "map_of ir1 ''extracted_data'' = Some (JObj ed)"
    and tc: "(\<exists>s. map_of ed ''title'' = Some (JStr s)) \<and> (\<exists>s. map_of ed ''content'' = Some (JStr s))"
    unfolding required_fields_ok_def case_string_field case_object_required by blast
  then obtain t c where t: "map_of ed ''title'' = Some (JStr t)"
    and c: "map_of ed ''content'' = Some (JStr c)" by blast
  have ed2: "map_of ir2 ''extracted_data'' = Some (JObj ed)"
    using ed assms(1) by simp
  show ?thesis
    by (simp add: validate_record_passed [OF True ed t c] validate_record_passed [OF p2 ed2 t c]
             del: schema_errors.simps)
next
  case False
  then have f2: "schema_errors [] validation_schema (JObj ir2) \<noteq> []"
    using assms(2) by simp
  show ?thesis
    by (simp add: validate_record_invalid [OF False] validate_record_invalid [OF f2]
             del: schema_errors.simps)
qed

theorem validation_status_determined_witness:
  "\<exists>st vd1 vd2.
      validate_record error_count_text ''2025-01-01T00:00:00''
        (JObj [(''task_id'', JStr ''t1''), (''status'', JStr ''completed''),
               (''file_path'', JStr ''a.txt''),
               (''extracted_data'', JObj [(''title'', JStr ''Report''),
                                          (''content'', JStr ''long enough text'')])])
        (JObj []) = Inr (vd1, st)
    \<and> validate_record error_count_text ''2025-01-02T00:00:00''
        (JObj [(''task_id'', JStr ''t2''), (''status'', JStr ''completed''),
               (''file_path'', JStr ''b.txt''), (''result_index'', JInt 4),
               (''extracted_data'', JObj [(''title'', JStr ''Report''),
                                          (''content'', JStr ''long enough text'')])])
        (JObj [(''task_id'', JStr ''t2'')]) = Inr (vd2, st)"
  by (rule validation_status_determined) (simp_all add: validation_schema_def)

text \<open>
  The claim C7 as stated fails: two individual results with the same \<open>extracted_data\<close>,
  one with and one without the other required fields, are classified valid and invalid.
\<close>

theorem validation_status_other_fields_counterexample:
  "map_sum id snd
     (validate_record error_count_text ''2025-01-01T00:00:00''
        (JObj [(''task_id'', JStr ''t1''), (''status'', JStr ''completed''),
               (''file_path'', JStr ''a.txt''),
               (''extracted_data'', JObj [(''title'', JStr ''Report''),
                                          (''content'', JStr ''long enough text'')])])
        (JObj [])) = Inr ''valid''
   \<and> map_sum id snd
     (validate_record error_count_text ''2025-01-01T00:00:00''
        (JObj [(''extracted_data'', JObj [(''title'', JStr ''Report''),
                                          (''content'', JStr ''long enough text'')])])
        (JObj [])) = Inr ''invalid''"
  by (simp add: validate_record_def validation_schema_def check_fields_def py_get_def
                dict_get_def strip_len_def py_strip_def is_space_def whitespace_def)

section \<open>Properties of the failure router\<close>

lemma field_text_truthy:
  assumes "field_text ed k = Some t"
  shows "truthy (dict_get ed k JNull) = (t \<noteq> [])"
  using assms
  by (auto simp: field_text_def dict_get_def split: option.splits json.splits)

lemma field_text_strip_len:
  assumes "field_text ed k = Some t" and "t \<noteq> []"
  shows "strip_len (dict_get ed k (JStr [])) = Inr (length (py_strip t))"
  using assms
  by (auto simp: field_text_def dict_get_def strip_len_def split: option.splits json.splits)

lemma get_failure_reason_partial:
  assumes "dict_get vd ''extracted_data'' (JObj []) = JObj ed"
    and "field_text ed ''title'' = Some t"
    and "field_text ed ''content'' = Some c"
  shows "get_failure_reason ''partial'' (JObj vd) =
           Inr (if t = [] then ''missing_title''
                else if c = [] then ''missing_content''
                else if length (py_strip c) < 10 then ''content_too_short''
                else ''validation_failed'')"
proof -
  have tt: "truthy (dict_get ed ''title'' JNull) = (t \<noteq> [])"
    by (rule field_text_truthy [OF assms(2)])
  have tc: "truthy (dict_get ed ''content'' JNull) = (c \<noteq> [])"
    by (rule field_text_truthy [OF assms(3)])
  show ?thesis
  proof (cases "t = []")
    case True
    then show ?thesis
      using tt by (simp add: get_failure_reason_def py_get_def assms(1))
  next
    case False
    show ?thesis
    proof (cases "c = []")
      case True
      then show ?thesis
        using False tt tc by (simp add: get_failure_reason_def py_get_def assms(1))
    next
      case nonempty: False
      have "strip_len (dict_get ed ''content'' (JStr [])) = Inr (length (py_strip c))"
        by (rule field_text_strip_len [OF assms(3) nonempty])
      then show ?thesis
        using False nonempty tt tc
        by (simp add: get_failure_reason_def py_get_def assms(1))
    qed
  qed
qed

lemma handle_failure_writes:
  assumes "get_failure_reason st (JObj vd) = Inr reason" and "st \<noteq> ''valid''"
    and "writable store"
  shows "handle_failure render stamp iso_now store st (JObj vd) =
           (Inr \<lparr>failure_csv_path =
                   ''failures/'' @ ''failures_''
                     @ (case dict_get vd ''task_id'' (JStr ''unknown'') of JStr s \<Rightarrow> s | v \<Rightarrow> render v)
                     @ ''_'' @ stamp @ ''.csv'',
                 retry_count = (if st = ''invalid'' \<or> st = ''partial'' then ''1'' else ''0'')\<rparr>,
            store\<lparr>files := (files store)
              (''failures/'' @ ''failures_''
                     @ (case dict_get vd ''task_id'' (JStr ''unknown'') of JStr s \<Rightarrow> s | v \<Rightarrow> render v)
                     @ ''_'' @ stamp @ ''.csv'' \<mapsto>
               [[JStr ''file_path'', JStr ''failure_reason'', JStr ''task_id'', JStr ''timestamp''],
                [dict_get vd ''file_path'' (JStr []), JStr reason,
                 dict_get vd ''task_id'' (JStr ''unknown''), JStr iso_now]])\<rparr>)"
  using assms
  by (simp add: handle_failure_def create_failure_csv_def py_get_def Let_def)

text \<open>
  C6. For a validated record, routing does nothing when the status is valid: no file
  is written and the retry count is 0. Otherwise the failure reason is
  \<open>schema_validation_failed\<close> for the status invalid, and for the status partial the
  first that applies of \<open>missing_title\<close>, \<open>missing_content\<close>, \<open>content_too_short\<close>,
  \<open>validation_failed\<close>; the row written to the ledger carries that reason. A title ""
  with content "hello" gives \<open>missing_title\<close>; a title "x" with content "short" gives
  \<open>content_too_short\<close>.
\<close>

theorem route_failure_reason:
  assumes "dict_get vd ''extracted_data'' (JObj []) = JObj ed"
    and "field_text ed ''title'' = Some t"
    and "field_text ed ''content'' = Some c"
  shows "handle_failure render stamp iso_now store ''valid'' (JObj vd)
           = (Inr \<lparr>failure_csv_path = [], retry_count = ''0''\<rparr>, store)
       \<and> get_failure_reason ''invalid'' (JObj vd) = Inr ''schema_validation_failed''
       \<and> get_failure_reason ''partial'' (JObj vd) =
           Inr (if t = [] then ''missing_title''
                else if c = [] then ''missing_content''
                else if length (py_strip c) < 10 then ''content_too_short''
                else ''validation_failed'')
       \<and> (writable store \<and> (st = ''invalid'' \<or> st = ''partial'') \<longrightarrow>
            (\<exists>path reason.
                get_failure_reason st (JObj vd) = Inr reason
              \<and> fst (handle_failure render stamp iso_now store st (JObj vd))
                  = Inr \<lparr>failure_csv_path = path, retry_count = ''1''\<rparr>
              \<and> files (snd (handle_failure render stamp iso_now store st (JObj vd))) path
                  = Some [[JStr ''file_path'', JStr ''failure_reason'', JStr ''task_id'',
                           JStr ''timestamp''],
                          [dict_get vd ''file_path'' (JStr []), JStr reason,
                           dict_get vd ''task_id'' (JStr ''unknown''), JStr iso_now]]))
       \<and> get_failure_reason ''partial''
            (JObj [(''extracted_data'', JObj [(''title'', JStr ''''), (''content'', JStr ''hello'')])])
           = Inr ''missing_title''
       \<and> get_failure_reason ''partial''
            (JObj [(''extracted_data'', JObj [(''title'', JStr ''x''), (''content'', JStr ''short'')])])
           = Inr ''content_too_short''"
proof -
  have noop: "handle_failure render stamp iso_now store ''valid'' (JObj vd)
                = (Inr \<lparr>failure_csv_path = [], retry_count = ''0''\<rparr>, store)"
    by (simp add: handle_failure_def)
  have inv: "get_failure_reason ''invalid'' (JObj vd) = Inr ''schema_validation_failed''"
    by (simp add: get_failure_reason_def)
  note par = get_failure_reason_partial [OF assms]
  have row: "\<exists>path reason.
                get_failure_reason st (JObj vd) = Inr reason
              \<and> fst (handle_failure render stamp iso_now store st (JObj vd))
                  = Inr \<lparr>failure_csv_path = path, retry_count = ''1''\<rparr>
              \<and> files (snd (handle_failure render stamp iso_now store st (JObj vd))) path
                  = Some [[JStr ''file_path'', JStr ''failure_reason'', JStr ''task_id'',
                           JStr ''timestamp''],
                          [dict_get vd ''file_path'' (JStr []), JStr reason,
                           dict_get vd ''task_id'' (JStr ''unknown''), JStr iso_now]]"
    if w: "writable store" and s: "st = ''invalid'' \<or> st = ''partial''"
  proof -
    obtain reason where r: "get_failure_reason st (JObj vd) = Inr reason"
      using s inv par by auto
    have nv: "st \<noteq> ''valid''" using s by auto
    show ?thesis
      using s by (auto simp: handle_failure_writes [OF r nv w] r)
  qed
  have ex1: "get_failure_reason ''partial''
            (JObj [(''extracted_data'', JObj [(''title'', JStr ''''), (''content'', JStr ''hello'')])])
           = Inr ''missing_title''"
    by (simp add: get_failure_reason_def py_get_def dict_get_def)
  have ex2: "get_failure_reason ''partial''
            (JObj [(''extracted_data'', JObj [(''title'', JStr ''x''), (''content'', JStr ''short'')])])
           = Inr ''content_too_short''"
    by (simp add: get_failure_reason_def py_get_def dict_get_def strip_len_def py_strip_def
                  is_space_def whitespace_def)
  show ?thesis
    using noop inv par row ex1 ex2 by blast
qed

theorem route_failure_reason_witness:
  "handle_failure (\<lambda>v. ''?'') ''20250101_000000'' ''2025-01-01T00:00:00''
       \<lparr>files = (\<lambda>p. None), writable = True\<rparr> ''valid''
       (JObj [(''task_id'', JStr ''t1''), (''file_path'', JStr ''a.txt''),
              (''extracted_data'', JObj [(''title'', JStr ''Report''), (''content'', JStr ''tiny'')])])
     = (Inr \<lparr>failure_csv_path = [], retry_count = ''0''\<rparr>, \<lparr>files = (\<lambda>p. None), writable = True\<rparr>)
   \<and> get_failure_reason ''partial''
       (JObj [(''task_id'', JStr ''t1''), (''file_path'', JStr ''a.txt''),
              (''extracted_data'', JObj [(''title'', JStr ''Report''), (''content'', JStr ''tiny'')])])
     = Inr ''content_too_short''
   \<and> (\<exists>path.
         fst (handle_failure (\<lambda>v. ''?'') ''20250101_000000'' ''2025-01-01T00:00:00''
                \<lparr>files = (\<lambda>p. None), writable = True\<rparr> ''partial''
                (JObj [(''task_id'', JStr ''t1''), (''file_path'', JStr ''a.txt''),
                       (''extracted_data'', JObj [(''title'', JStr ''Report''),
                                                  (''content'', JStr ''tiny'')])]))
           = Inr \<lparr>failure_csv_path = path, retry_count = ''1''\<rparr>
       \<and> files (snd (handle_failure (\<lambda>v. ''?'') ''20250101_000000'' ''2025-01-01T00:00:00''
                \<lparr>files = (\<lambda>p. None), writable = True\<rparr> ''partial''
                (JObj [(''task_id'', JStr ''t1''), (''file_path'', JStr ''a.txt''),
                       (''extracted_data'', JObj [(''title'', JStr ''Report''),
                                                  (''content'', JStr ''tiny'')])]))) path
           = Some [[JStr ''file_path'', JStr ''failure_reason'', JStr ''task_id'', JStr ''timestamp''],
                   [JStr ''a.txt'', JStr ''content_too_short'', JStr ''t1'',
                    JStr ''2025-01-01T00:00:00'']])"
  using route_failure_reason
          [where vd = "[(''task_id'', JStr ''t1''), (''file_path'', JStr ''a.txt''),
                        (''extracted_data'', JObj [(''title'', JStr ''Report''),
                                                   (''content'', JStr ''tiny'')])]"
             and ed = "[(''title'', JStr ''Report''), (''content'', JStr ''tiny'')]"
             and t = "''Report''" and c = "''tiny''"
             and render = "\<lambda>v. ''?''" and stamp = "''20250101_000000''"
             and iso_now = "''2025-01-01T00:00:00''"
             and store = "\<lparr>files = (\<lambda>p. None), writable = True\<rparr>"
             and st = "''partial''"]
  by (auto simp add: dict_get_def field_text_def py_strip_def is_space_def whitespace_def)

text \<open>
  A record that the validator returns has the shape the router reads: it is an object
  whose \<open>extracted_data\<close>, when present, is an object with a string title and content.
\<close>

lemma validated_record_shape:
  assumes "validate_record describe now (JObj ir) info = Inr (v, st)"
  shows "\<exists>vd ed t c. v = JObj vd
           \<and> dict_get vd ''extracted_data'' (JObj []) = JObj ed
           \<and> field_text ed ''title'' = Some t
           \<and> field_text ed ''content'' = Some c
           \<and> (st = ''valid'' \<or> st = ''partial'' \<or> st = ''invalid'')"
proof (cases "schema_errors [] validation_schema (JObj ir) = []")
  case True
  then have ok: "required_fields_ok ir" by (simp only: schema_ok_iff)
  then obtain ed where ed: "map_of ir ''extracted_data'' = Some (JObj ed)"
    and tc: "(\<exists>s. map_of ed ''title'' = Some (JStr s)) \<and> (\<exists>s. map_of ed ''content'' = Some (JStr s))"
    unfolding required_fields_ok_def case_string_field case_object_required by blast
  then obtain t c where t: "map_of ed ''title'' = Some (JStr t)"
    and c: "map_of ed ''content'' = Some (JStr c)" by blast
  have "field_text ed ''title'' = Some t" "field_text ed ''content'' = Some c"
    using t c by (simp_all add: field_text_def)
  then show ?thesis
    using assms unfolding validate_record_passed [OF True ed t c]
    by (auto simp: dict_get_def)
next
  case False
  have "field_text [] ''title'' = Some []" "field_text [] ''content'' = Some []"
    by (simp_all add: field_text_def)
  then show ?thesis
    using assms unfolding validate_record_invalid [OF False]
    by (auto simp: dict_get_def)
qed

text \<open>The node decodes its two JSON inputs and routes the decoded record.\<close>

lemma failure_execute_decoded:
  assumes "loads bi_in = Some info" and "loads vd_in = Some validated"
  shows "failure_execute loads render stamp iso_now store st bi_in vd_in
           = handle_failure render stamp iso_now store st validated"
  using assms by (simp add: failure_execute_def)

section \<open>Properties of the result splitter\<close>





text \<open>The entries that the poll controller builds from inlined responses are well formed.\<close>

lemma inline_result_entry_ok:
  assumes "inline_result r = Inr j"
  shows "result_entry_ok j"
  using assms
  by (auto simp: inline_result_def result_entry_ok_def split: list.splits)

section \<open>Properties of the batch submitter\<close>

lemma inline_request_parsed:
  "inline_request render prompt (parse_file rd p) =
     Inr (JObj
       [(''contents'', JArr
           [JObj [(''parts'', JArr
                     [JObj [(''text'',
                        JStr (prompt @ [CHR 0x0A, CHR 0x0A] @ ''Document content:'' @ [CHR 0x0A]
                              @ (case read_file_content rd p of
                                   Inr content \<Rightarrow> content
                                 | Inl msg \<Rightarrow> ''[ERROR: Failed to read file - '' @ msg @ '']'')))]]),
                  (''role'', JStr ''user'')]])])"
  by (cases "read_file_content rd p") (simp_all add: inline_request_def parse_file_def)

lemma map_err_total:
  assumes "\<forall>x \<in> set xs. f x = Inr (g x)"
  shows "map_err f xs = Inr (map g xs)"
  using assms by (induction xs) simp_all

text \<open>
  C9. Submission does not stop at a file that cannot be read. For every chunk of paths
  the parser returns one entry per path, in order: the content of the file, or, when
  reading it raised, a marker text with the error; and one request is built per path
  from that content or marker.
\<close>

theorem file_parsing_degrades:
  assumes "loads chunk_in = Some paths"
  shows "file_parsing_execute loads dumps rd uuid chunk_in
           = Inr \<lparr>parsed_files = dumps (JArr (map (parse_file rd) paths)), task_id = uuid\<rparr>
       \<and> length (map (parse_file rd) paths) = length paths
       \<and> (\<forall>p \<in> set paths.
             parse_file rd p =
               (case read_file_content rd p of
                  Inr content \<Rightarrow> JObj [(''file_path'', JStr p), (''content'', JStr content)]
                | Inl msg \<Rightarrow>
                    JObj [(''file_path'', JStr p),
                          (''content'', JStr (''[ERROR: Failed to read file - '' @ msg @ '']'')),
                          (''error'', JStr msg)]))
       \<and> inline_requests render prompt (map (parse_file rd) paths)
           = Inr (map (\<lambda>p. JObj
               [(''contents'', JArr
                   [JObj [(''parts'', JArr
                             [JObj [(''text'',
                                JStr (prompt @ [CHR 0x0A, CHR 0x0A] @ ''Document content:''
                                      @ [CHR 0x0A]
                                      @ (case read_file_content rd p of
                                           Inr content \<Rightarrow> content
                                         | Inl msg \<Rightarrow>
                                             ''[ERROR: Failed to read file - '' @ msg @ '']'')))]]),
                          (''role'', JStr ''user'')]])]) paths)"
proof -
  have a: "file_parsing_execute loads dumps rd uuid chunk_in
           = Inr \<lparr>parsed_files = dumps (JArr (map (parse_file rd) paths)), task_id = uuid\<rparr>"
    by (simp add: file_parsing_execute_def assms)
  have b: "\<forall>p \<in> set paths.
             parse_file rd p =
               (case read_file_content rd p of
                  Inr content \<Rightarrow> JObj [(''file_path'', JStr p), (''content'', JStr content)]
                | Inl msg \<Rightarrow>
                    JObj [(''file_path'', JStr p),
                          (''content'', JStr (''[ERROR: Failed to read file - '' @ msg @ '']'')),
                          (''error'', JStr msg)])"
    by (simp add: parse_file_def)
  have "map_err (inline_request render prompt) (map (parse_file rd) paths)
          = Inr (map (\<lambda>j. projr (inline_request render prompt j)) (map (parse_file rd) paths))"
    by (rule map_err_total) (auto simp: inline_request_parsed)
  then have c: "inline_requests render prompt (map (parse_file rd) paths)
           = Inr (map (\<lambda>p. JObj
               [(''contents'', JArr
                   [JObj [(''parts'', JArr
                             [JObj [(''text'',
                                JStr (prompt @ [CHR 0x0A, CHR 0x0A] @ ''Document content:''
                                      @ [CHR 0x0A]
                                      @ (case read_file_content rd p of
                                           Inr content \<Rightarrow> content
                                         | Inl msg \<Rightarrow>
                                             ''[ERROR: Failed to read file - '' @ msg @ '']'')))]]),
                          (''role'', JStr ''user'')]])]) paths)"
    by (simp add: inline_requests_def inline_request_parsed comp_def)
  show ?thesis using a b c by simp
qed

theorem file_parsing_degrades_witness:
  "file_parsing_execute (\<lambda>s. Some [''a.txt'', ''missing.txt'', ''c.pdf'']) (\<lambda>j. ''json'')
      \<lparr>read_text = (\<lambda>p. if p = ''missing.txt'' then Inl ''No such file'' else Inr ''hello''),
       read_pdf = (\<lambda>p. Inr ''pdf text''), read_docx = (\<lambda>p. Inr ''docx text''),
       docx_installed = True\<rparr> ''uuid-1'' ''chunk''
     = Inr \<lparr>parsed_files = ''json'', task_id = ''uuid-1''\<rparr>
   \<and> parse_file
      \<lparr>read_text = (\<lambda>p. if p = ''missing.txt'' then Inl ''No such file'' else Inr ''hello''),
       read_pdf = (\<lambda>p. Inr ''pdf text''), read_docx = (\<lambda>p. Inr ''docx text''),
       docx_installed = True\<rparr> ''missing.txt''
     = JObj [(''file_path'', JStr ''missing.txt''),
             (''content'', JStr ''[ERROR: Failed to read file - No such file]''),
             (''error'', JStr ''No such file'')]
   \<and> parse_file
      \<lparr>read_text = (\<lambda>p. if p = ''missing.txt'' then Inl ''No such file'' else Inr ''hello''),
       read_pdf = (\<lambda>p. Inr ''pdf text''), read_docx = (\<lambda>p. Inr ''docx text''),
       docx_installed = True\<rparr> ''c.pdf''
     = JObj [(''file_path'', JStr ''c.pdf''), (''content'', JStr ''pdf text'')]"
  using file_parsing_degrades
          [where loads = "\<lambda>s. Some [''a.txt'', ''missing.txt'', ''c.pdf'']"
             and chunk_in = "''chunk''" and paths = "[''a.txt'', ''missing.txt'', ''c.pdf'']"
             and dumps = "\<lambda>j. ''json''" and uuid = "''uuid-1''"
             and rd = "\<lparr>read_text = (\<lambda>p. if p = ''missing.txt'' then Inl ''No such file''
                                         else Inr ''hello''),
                       read_pdf = (\<lambda>p. Inr ''pdf text''), read_docx = (\<lambda>p. Inr ''docx text''),
                       docx_installed = True\<rparr>"]
  by (simp add: read_file_content_def ends_with_def)

end
